theory Spec2Isabelle
  imports Main "HOL-Library.Signed_Division" "HOL-Library.Log_Nat"
begin

section \<open>Data model (src/types.ts, src/errors.ts)\<close>

text \<open>
  A TypeScript \<open>bigint\<close> is an unbounded integer and is modelled as \<open>int\<close>.
  \<open>marginBps\<close> is a \<open>number\<close> in full: a double, modelled by the type \<open>number\<close> below
  with its rounding addition. Times are the integral millisecond counts that \<open>Date.now()\<close>
  returns and \<open>ttl\<close> is taken over the integral seconds for which \<open>now + ttl * 1000\<close>
  stays below \<open>2^53\<close>, where the double arithmetic of the code is exact; these are \<open>int\<close>.
  A non-integral or \<open>NaN\<close> ttl, and a ttl beyond that range, are outside this model.
  An optional field (\<open>x?: T\<close>) is a \<open>T option\<close>, \<open>None\<close> standing for \<open>undefined\<close>.
  \<open>Hex\<close> is a string.
\<close>

type_synonym Hex = string

record CreateTempWalletOpts =
  ttl :: "int option"
  label :: "string option"

record TempWalletMeta =
  createdAt :: int
  expiresAt :: "int option"
  meta_label :: "string option"
  used :: bool

record ExecuteTxInput =
  to :: Hex
  tx_value :: "int option"
  tx_data :: "Hex option"
  gasLimit :: "int option"
  maxFeePerGas :: "int option"
  maxPriorityFeePerGas :: "int option"
  nonce :: "int option"
  chainId :: "int option"
  providerUrl :: string

record SweepBuildInput =
  sw_fromAddress :: Hex
  sw_to :: Hex
  sw_providerUrl :: string
  gasLimitBuffer :: "int option"

record EstimateInputWei =
  gasUnits :: int
  gasPriceWei :: int

text \<open>
  The error classes of src/errors.ts. \<open>TransportError\<close> stands for whatever the ethers
  provider throws (network failure, rejected transaction); the functions below let it
  pass through unchanged. \<open>RangeError\<close> is the built-in error that \<open>BigInt()\<close> throws.
\<close>

datatype error =
  ExpiredSessionError
| AlreadyUsedError
| NoBalanceToSweepError
| InsufficientAfterBufferError
| TransportError string
| RangeError

text \<open>
  The \<open>TransactionRequest\<close> of ethers, with the fields this code can populate; a field
  that the object literal does not mention is \<open>None\<close>.
\<close>

record TransactionRequest =
  req_to :: "Hex option"
  req_value :: "int option"
  req_data :: "Hex option"
  req_gasLimit :: "int option"
  req_gasPrice :: "int option"
  req_maxFeePerGas :: "int option"
  req_maxPriorityFeePerGas :: "int option"
  req_nonce :: "int option"

text \<open>The ethers \<open>Wallet\<close>: a key pair and the address derived from it.\<close>

record Wallet =
  address :: Hex
  privateKey :: string

record TempWallet =
  wallet :: Wallet
  meta :: TempWalletMeta

section \<open>The external JSON-RPC collaborator\<close>

text \<open>
  \<open>provider.getBalance(address)\<close> on the endpoint \<open>providerUrl\<close> either throws
  (\<open>Inl\<close> the message) or yields the balance in wei.
\<close>

type_synonym balance_rpc = "string \<Rightarrow> Hex \<Rightarrow> string + int"

text \<open>
  \<open>signer.sendTransaction(tx)\<close> followed by \<open>resp.wait()\<close>: the submission throws, or the
  wait throws, or the wait returns a receipt (possibly \<open>null\<close>, hence the option on the
  receipt's hash) next to the response's own hash.
\<close>

datatype send_outcome =
  SendThrows string
| WaitThrows string
| Mined "string option" string

type_synonym chain = "string \<Rightarrow> Wallet \<Rightarrow> TransactionRequest \<Rightarrow> send_outcome"

section \<open>src/utils.ts\<close>

definition getBalanceWei :: "balance_rpc \<Rightarrow> string \<Rightarrow> Hex \<Rightarrow> string + int" where
  "getBalanceWei rpc url addr = rpc url addr"

section \<open>src/wallet.ts\<close>

text \<open>
  \<open>!!this.meta.expiresAt && Date.now() > (this.meta.expiresAt ?? 0)\<close>: the double negation
  is false for \<open>undefined\<close> and for the number \<open>0\<close>.
\<close>

definition isExpired :: "int \<Rightarrow> TempWallet \<Rightarrow> bool" where
  "isExpired now w =
     (case expiresAt (meta w) of
        None \<Rightarrow> False
      | Some e \<Rightarrow> e \<noteq> 0 \<and> now > e)"

definition markAsUsed :: "TempWallet \<Rightarrow> TempWallet" where
  "markAsUsed w = w\<lparr>meta := (meta w)\<lparr>used := True\<rparr>\<rparr>"

text \<open>
  \<open>sendTransaction\<close> returns what the promise settles to together with the wallet
  object after the call. \<open>now\<close> is the value of \<open>Date.now()\<close> read by \<open>isExpired\<close>.
\<close>

definition sendTransaction ::
  "chain \<Rightarrow> int \<Rightarrow> TempWallet \<Rightarrow> ExecuteTxInput \<Rightarrow> (error + string) \<times> TempWallet" where
  "sendTransaction net now w input =
     (if used (meta w) then (Inl AlreadyUsedError, w)
      else if isExpired now w then (Inl ExpiredSessionError, w)
      else
        let tx = \<lparr> req_to = Some (to input),
                   req_value = Some (case tx_value input of None \<Rightarrow> 0 | Some v \<Rightarrow> v),
                   req_data = Some (case tx_data input of None \<Rightarrow> ''0x'' | Some d \<Rightarrow> d),
                   req_gasLimit = gasLimit input,
                   req_gasPrice = None,
                   req_maxFeePerGas = maxFeePerGas input,
                   req_maxPriorityFeePerGas = maxPriorityFeePerGas input,
                   req_nonce = nonce input \<rparr>
        in case net (providerUrl input) (wallet w) tx of
             SendThrows m \<Rightarrow> (Inl (TransportError m), w)
           | WaitThrows m \<Rightarrow> (Inl (TransportError m), w)
           | Mined receipt_hash resp_hash \<Rightarrow>
               (Inr (case receipt_hash of None \<Rightarrow> resp_hash | Some h \<Rightarrow> h), markAsUsed w))"

text \<open>
  \<open>createTempWallet\<close>: \<open>fresh\<close> is the key pair that \<open>Wallet.createRandom()\<close> draws and
  \<open>now\<close> the value of \<open>Date.now()\<close>. The conditional \<open>opts.ttl ? ... : undefined\<close> tests
  the truthiness of \<open>opts.ttl\<close>, which is false for \<open>undefined\<close> and for \<open>0\<close>.
\<close>

definition createTempWallet :: "Wallet \<Rightarrow> int \<Rightarrow> CreateTempWalletOpts \<Rightarrow> TempWallet" where
  "createTempWallet fresh now opts =
     \<lparr> wallet = fresh,
       meta = \<lparr> createdAt = now,
                expiresAt = (case ttl opts of
                               None \<Rightarrow> None
                             | Some t \<Rightarrow> if t \<noteq> 0 then Some (now + t * 1000) else None),
                meta_label = label opts,
                used = False \<rparr> \<rparr>"

section \<open>src/utils.ts: payment URI\<close>

text \<open>
  \<open>BigInt.prototype.toString()\<close>: the decimal digits of the value, most significant
  first, after a minus sign when it is negative.
\<close>

definition digit_char :: "nat \<Rightarrow> char" where
  "digit_char d = ''0123456789'' ! d"

function nat_toString :: "nat \<Rightarrow> string" where
  "nat_toString n =
     (if n < 10 then [digit_char n]
      else nat_toString (n div 10) @ [digit_char (n mod 10)])"
  by pat_completeness auto
termination
  by (relation "measure (\<lambda>n. n)") auto

declare nat_toString.simps [simp del]

definition bigint_toString :: "int \<Rightarrow> string" where
  "bigint_toString i =
     (if i < 0 then CHR ''-'' # nat_toString (nat (- i)) else nat_toString (nat i))"

text \<open>
  Reading a decimal numeral back, to check \<open>nat_toString\<close> against: the value of a
  string of digits, most significant first.
\<close>

definition digit_val :: "char \<Rightarrow> nat" where
  "digit_val c = of_char c - 48"

definition nat_of_decimal :: "string \<Rightarrow> nat" where
  "nat_of_decimal s = foldl (\<lambda>acc c. 10 * acc + digit_val c) 0 s"

text \<open>
  \<open>wei ? `ethereum:${address}?value=${wei.toString()}` : `ethereum:${address}`\<close>: the
  condition is the truthiness of \<open>wei\<close>, false for \<open>undefined\<close> and for \<open>0n\<close>.
\<close>

definition buildPaymentURI :: "Hex \<Rightarrow> int option \<Rightarrow> string" where
  "buildPaymentURI addr wei =
     (case wei of
        None \<Rightarrow> ''ethereum:'' @ addr
      | Some w \<Rightarrow>
          if w \<noteq> 0 then ''ethereum:'' @ addr @ ''?value='' @ bigint_toString w
          else ''ethereum:'' @ addr)"

section \<open>src/sweep.ts\<close>

definition buildSweepTx :: "balance_rpc \<Rightarrow> SweepBuildInput \<Rightarrow> error + TransactionRequest" where
  "buildSweepTx rpc input =
     (case getBalanceWei rpc (sw_providerUrl input) (sw_fromAddress input) of
        Inl m \<Rightarrow> Inl (TransportError m)
      | Inr balance \<Rightarrow>
          if balance = 0 then Inl NoBalanceToSweepError
          else
            let gasBuffer = (case gasLimitBuffer input of None \<Rightarrow> 0 | Some g \<Rightarrow> g);
                val = (if balance > gasBuffer then balance - gasBuffer else 0)
            in if val \<le> 0 then Inl InsufficientAfterBufferError
               else Inr \<lparr> req_to = Some (sw_to input),
                          req_value = Some val,
                          req_data = None,
                          req_gasLimit = None,
                          req_gasPrice = None,
                          req_maxFeePerGas = None,
                          req_maxPriorityFeePerGas = None,
                          req_nonce = None \<rparr>)"

section \<open>JavaScript numbers\<close>

text \<open>
  A \<open>number\<close> is an IEEE 754 double: a finite value, which is a rational, or one of
  \<open>NaN\<close>, \<open>Infinity\<close> and \<open>-Infinity\<close> (the two zeros are not told apart; nothing
  here depends on the sign of zero).
\<close>

datatype number = Finite rat | NaN | PosInfinity | NegInfinity

text \<open>\<open>pow2 i\<close> is \<open>2^i\<close> for an integer \<open>i\<close> of either sign.\<close>

definition pow2 :: "int \<Rightarrow> rat" where
  "pow2 i = (if 0 \<le> i then 2 ^ nat i else 1 / 2 ^ nat (- i))"

text \<open>
  For \<open>x > 0\<close>, \<open>floor_log2 x\<close> is the exponent \<open>e\<close> with \<open>2^e \<le> x < 2^(e+1)\<close>;
  \<open>floorlog 2 n\<close> is the number of binary digits of \<open>n\<close>.
\<close>

definition floor_log2 :: "rat \<Rightarrow> int" where
  "floor_log2 x =
     (if 1 \<le> x then int (floorlog 2 (nat \<lfloor>x\<rfloor>)) - 1
      else - int (floorlog 2 (nat (\<lceil>1 / x\<rceil> - 1))))"

text \<open>Rounding to the nearest integer, a tie going to the even neighbour.\<close>

definition round_half_even :: "rat \<Rightarrow> int" where
  "round_half_even y =
     (let f = \<lfloor>y\<rfloor>; d = y - of_int f
      in if d < 1 / 2 then f
         else if 1 / 2 < d then f + 1
         else if even f then f else f + 1)"

text \<open>
  \<open>round_double x\<close> is the double nearest to the exact value \<open>x\<close> (round to nearest,
  ties to even): 53 significant bits, so the spacing at exponent \<open>e\<close> is \<open>2^(e-52)\<close>, the
  exponent not below \<open>-1022\<close> (the subnormal range), and a result of \<open>2^1024\<close> or more
  is an infinity.
\<close>

definition round_double :: "rat \<Rightarrow> number" where
  "round_double x =
     (if x = 0 then Finite 0
      else
        let e = max (floor_log2 \<bar>x\<bar>) (- 1022);
            ulp = pow2 (e - 52);
            r = of_int (round_half_even (\<bar>x\<bar> / ulp)) * ulp
        in if 2 ^ 1024 \<le> r then (if 0 < x then PosInfinity else NegInfinity)
           else Finite (sgn x * r))"

text \<open>The \<open>+\<close> of two numbers: the exact sum, rounded.\<close>

fun js_add :: "number \<Rightarrow> number \<Rightarrow> number" where
  "js_add (Finite a) (Finite b) = round_double (a + b)"
| "js_add NaN b = NaN"
| "js_add a NaN = NaN"
| "js_add PosInfinity NegInfinity = NaN"
| "js_add NegInfinity PosInfinity = NaN"
| "js_add PosInfinity b = PosInfinity"
| "js_add a PosInfinity = PosInfinity"
| "js_add NegInfinity b = NegInfinity"
| "js_add a NegInfinity = NegInfinity"

text \<open>
  \<open>BigInt(x)\<close> for a number \<open>x\<close>: the integer \<open>x\<close> is, and a \<open>RangeError\<close> when \<open>x\<close> is
  not an integer (a fraction, \<open>NaN\<close> or an infinity).
\<close>

fun BigInt :: "number \<Rightarrow> error + int" where
  "BigInt (Finite q) = (if of_int \<lfloor>q\<rfloor> = q then Inr \<lfloor>q\<rfloor> else Inl RangeError)"
| "BigInt NaN = Inl RangeError"
| "BigInt PosInfinity = Inl RangeError"
| "BigInt NegInfinity = Inl RangeError"

section \<open>src/estimate.ts\<close>

text \<open>
  Division of \<open>bigint\<close>s truncates toward zero, which is \<open>sdiv\<close> on \<open>int\<close>
  (\<open>div\<close> rounds down instead). In \<open>total * BigInt(10_000 + marginBps) / 10_000n\<close> the sum
  is the sum of two numbers and \<open>BigInt\<close> may throw.
\<close>

definition estimateTotalCostWei :: "EstimateInputWei \<Rightarrow> int" where
  "estimateTotalCostWei input = gasUnits input * gasPriceWei input"

definition estimateWithMarginWei :: "EstimateInputWei \<Rightarrow> number \<Rightarrow> error + int" where
  "estimateWithMarginWei input marginBps =
     (let total = estimateTotalCostWei input
      in case BigInt (js_add (Finite 10000) marginBps) of
           Inl e \<Rightarrow> Inl e
         | Inr k \<Rightarrow> Inr (total * k sdiv 10000))"

section \<open>src/safe.ts\<close>

record SafePayload =
  sp_to :: Hex
  sp_value :: int
  sp_data :: Hex

record SafePaymentParams =
  pay_to :: Hex
  pay_value :: int
  pay_data :: "Hex option"

record SafeSweepParams =
  ss_providerUrl :: string
  safeAddress :: Hex
  ss_to :: Hex

definition buildSafePayment :: "SafePaymentParams \<Rightarrow> SafePayload" where
  "buildSafePayment params =
     \<lparr> sp_to = pay_to params,
       sp_value = pay_value params,
       sp_data = (case pay_data params of None \<Rightarrow> ''0x'' | Some d \<Rightarrow> d) \<rparr>"

definition buildSafeSweep :: "balance_rpc \<Rightarrow> SafeSweepParams \<Rightarrow> error + SafePayload" where
  "buildSafeSweep rpc params =
     (case getBalanceWei rpc (ss_providerUrl params) (safeAddress params) of
        Inl m \<Rightarrow> Inl (TransportError m)
      | Inr bal \<Rightarrow> Inr \<lparr> sp_to = ss_to params, sp_value = bal, sp_data = ''0x'' \<rparr>)"

section \<open>Clients of a TempWallet\<close>

text \<open>
  A client holds a \<open>TempWallet\<close> and calls its interface in any order: the \<open>address\<close>
  getter, \<open>isExpired\<close>, \<open>markAsUsed\<close> and \<open>sendTransaction\<close>, each call with its own
  clock reading and its own behaviour of the network. \<open>apply_op\<close> gives the wallet
  after one call, \<open>run_ops\<close> after a sequence of calls.
\<close>

datatype wallet_op =
  OpAddress
| OpIsExpired int
| OpMarkAsUsed
| OpSendTransaction chain int ExecuteTxInput

fun apply_op :: "TempWallet \<Rightarrow> wallet_op \<Rightarrow> TempWallet" where
  "apply_op w OpAddress = w"
| "apply_op w (OpIsExpired now) = w"
| "apply_op w OpMarkAsUsed = markAsUsed w"
| "apply_op w (OpSendTransaction net now input) = snd (sendTransaction net now w input)"

fun run_ops :: "TempWallet \<Rightarrow> wallet_op list \<Rightarrow> TempWallet" where
  "run_ops w [] = w"
| "run_ops w (c # cs) = run_ops (apply_op w c) cs"

section \<open>Sample values\<close>

definition sample_key :: Wallet where
  "sample_key = \<lparr> address = ''0x0000000000000000000000000000000000000001'',
                   privateKey = ''k'' \<rparr>"

definition sample_input :: ExecuteTxInput where
  "sample_input =
     \<lparr> to = ''0x000000000000000000000000000000000000dEaD'',
       tx_value = Some 5, tx_data = None, gasLimit = None, maxFeePerGas = None,
       maxPriorityFeePerGas = None, nonce = None, chainId = None,
       providerUrl = ''http://localhost:8545'' \<rparr>"

definition mining_chain :: chain where
  "mining_chain url k tx = Mined (Some ''0xaa'') ''0xbb''"

definition sample_sweep :: "int option \<Rightarrow> SweepBuildInput" where
  "sample_sweep buf =
     \<lparr> sw_fromAddress = ''0x0000000000000000000000000000000000000001'',
       sw_to = ''0x000000000000000000000000000000000000dEaD'',
       sw_providerUrl = ''http://localhost:8545'',
       gasLimitBuffer = buf \<rparr>"

definition node_with_balance :: "int \<Rightarrow> balance_rpc" where
  "node_with_balance b url a = Inr b"

definition spent_stale_wallet :: TempWallet where
  "spent_stale_wallet =
     \<lparr> wallet = sample_key,
       meta = \<lparr> createdAt = 1000, expiresAt = Some 2000, meta_label = None, used = True \<rparr> \<rparr>"

definition stale_wallet :: TempWallet where
  "stale_wallet =
     \<lparr> wallet = sample_key,
       meta = \<lparr> createdAt = 1000, expiresAt = Some 2000, meta_label = None, used = False \<rparr> \<rparr>"

definition sample_session :: "wallet_op list" where
  "sample_session =
     [OpSendTransaction mining_chain 1500 sample_input, OpIsExpired 9000, OpAddress,
      OpSendTransaction mining_chain 1600 sample_input, OpMarkAsUsed]"

definition sample_safe :: SafeSweepParams where
  "sample_safe =
     \<lparr> ss_providerUrl = ''http://localhost:8545'',
       safeAddress = ''0x0000000000000000000000000000000000000001'',
       ss_to = ''0x000000000000000000000000000000000000dEaD'' \<rparr>"

section \<open>Expiry (src/wallet.ts, isExpired)\<close>

lemma isExpired_None: "expiresAt (meta w) = None \<Longrightarrow> isExpired now w = False"
  by (simp add: isExpired_def)

lemma isExpired_Some: "expiresAt (meta w) = Some e \<Longrightarrow> isExpired now w = (e \<noteq> 0 \<and> e < now)"
  by (simp add: isExpired_def)

text \<open>
  C10. \<open>isExpired()\<close> is true exactly when \<open>expiresAt\<close> is set to a nonzero value and the
  current time is strictly greater than it. So a wallet is not yet expired at the instant
  the clock equals \<open>expiresAt\<close>, a wallet without \<open>expiresAt\<close> is never expired, and a
  wallet whose \<open>meta.expiresAt\<close> is \<open>0\<close> never expires either.
\<close>

theorem isExpired_exactly:
  "(isExpired now w \<longleftrightarrow> (\<exists>e. expiresAt (meta w) = Some e \<and> e \<noteq> 0 \<and> e < now))
   \<and> isExpired t (w\<lparr>meta := (meta w)\<lparr>expiresAt := Some t\<rparr>\<rparr>) = False
   \<and> isExpired now (w\<lparr>meta := (meta w)\<lparr>expiresAt := None\<rparr>\<rparr>) = False
   \<and> isExpired now (w\<lparr>meta := (meta w)\<lparr>expiresAt := Some 0\<rparr>\<rparr>) = False"
proof -
  have "isExpired now w \<longleftrightarrow> (\<exists>e. expiresAt (meta w) = Some e \<and> e \<noteq> 0 \<and> e < now)"
    by (cases "expiresAt (meta w)") (simp_all add: isExpired_def)
  moreover have "isExpired t (w\<lparr>meta := (meta w)\<lparr>expiresAt := Some t\<rparr>\<rparr>) = False"
    by (simp add: isExpired_def)
  moreover have "isExpired now (w\<lparr>meta := (meta w)\<lparr>expiresAt := None\<rparr>\<rparr>) = False"
    by (simp add: isExpired_def)
  moreover have "isExpired now (w\<lparr>meta := (meta w)\<lparr>expiresAt := Some 0\<rparr>\<rparr>) = False"
    by (simp add: isExpired_def)
  ultimately show ?thesis by blast
qed

section \<open>The guarded send (src/wallet.ts, sendTransaction)\<close>

lemma sendTransaction_used:
  "used (meta w) \<Longrightarrow> sendTransaction net now w input = (Inl AlreadyUsedError, w)"
  by (simp add: sendTransaction_def)

lemma sendTransaction_expired:
  "\<not> used (meta w) \<Longrightarrow> isExpired now w \<Longrightarrow>
   sendTransaction net now w input = (Inl ExpiredSessionError, w)"
  by (simp add: sendTransaction_def)

lemma sendTransaction_success_marks:
  assumes "sendTransaction net now w input = (Inr h, w')"
  shows "w' = markAsUsed w \<and> \<not> used (meta w) \<and> \<not> isExpired now w"
  using assms
  by (auto simp: sendTransaction_def Let_def split: if_splits send_outcome.splits)

lemma sendTransaction_changes_only_on_success:
  assumes "snd (sendTransaction net now w input) \<noteq> w"
  shows "\<exists>h. sendTransaction net now w input = (Inr h, markAsUsed w)"
  using assms
  by (auto simp: sendTransaction_def Let_def split: if_splits send_outcome.splits)

lemma used_markAsUsed: "used (meta (markAsUsed w))"
  by (simp add: markAsUsed_def)

lemma sendTransaction_keeps_used:
  "used (meta w) \<Longrightarrow> used (meta (snd (sendTransaction net now w input)))"
  by (simp add: sendTransaction_used)

text \<open>
  C3. The used-check precedes the expiry-check: a wallet whose \<open>used\<close> flag is set makes
  \<open>sendTransaction\<close> fail with \<open>AlreadyUsedError\<close> whatever the clock and \<open>expiresAt\<close>
  are (so also when the wallet is expired), and after a send that succeeded every
  further send on the resulting wallet fails with \<open>AlreadyUsedError\<close>.
\<close>

theorem sendTransaction_used_before_expiry:
  "(used (meta w) \<longrightarrow> sendTransaction net now w input = (Inl AlreadyUsedError, w))
   \<and> (\<forall>h w'. sendTransaction net now w input = (Inr h, w') \<longrightarrow>
         sendTransaction net' now' w' input' = (Inl AlreadyUsedError, w'))"
proof (intro conjI allI impI)
  assume "used (meta w)"
  then show "sendTransaction net now w input = (Inl AlreadyUsedError, w)"
    by (rule sendTransaction_used)
next
  fix h w'
  assume "sendTransaction net now w input = (Inr h, w')"
  then have "w' = markAsUsed w" by (simp add: sendTransaction_success_marks)
  then have "used (meta w')" by (simp add: used_markAsUsed)
  then show "sendTransaction net' now' w' input' = (Inl AlreadyUsedError, w')"
    by (rule sendTransaction_used)
qed

text \<open>
  At a wallet that is both used and expired the error is \<open>AlreadyUsedError\<close>; a wallet
  created at time 1000 with a ttl of one second sends at time 1500, and its second send,
  long after the expiry, fails with \<open>AlreadyUsedError\<close>.
\<close>

theorem sendTransaction_used_before_expiry_witness:
  "used (meta spent_stale_wallet) \<and> isExpired 5000 spent_stale_wallet
   \<and> sendTransaction mining_chain 5000 spent_stale_wallet sample_input
       = (Inl AlreadyUsedError, spent_stale_wallet)
   \<and> sendTransaction mining_chain 1500
         (createTempWallet sample_key 1000 \<lparr>ttl = Some 1, label = None\<rparr>) sample_input
       = (Inr ''0xaa'', markAsUsed (createTempWallet sample_key 1000 \<lparr>ttl = Some 1, label = None\<rparr>))
   \<and> sendTransaction mining_chain 9000
         (markAsUsed (createTempWallet sample_key 1000 \<lparr>ttl = Some 1, label = None\<rparr>)) sample_input
       = (Inl AlreadyUsedError,
          markAsUsed (createTempWallet sample_key 1000 \<lparr>ttl = Some 1, label = None\<rparr>))"
proof -
  let ?w = "createTempWallet sample_key 1000 \<lparr>ttl = Some 1, label = None\<rparr>"
  have u: "used (meta spent_stale_wallet)" by (simp add: spent_stale_wallet_def)
  have e: "isExpired 5000 spent_stale_wallet"
    by (simp add: spent_stale_wallet_def isExpired_def)
  have s: "sendTransaction mining_chain 1500 ?w sample_input = (Inr ''0xaa'', markAsUsed ?w)"
    by (simp add: sendTransaction_def createTempWallet_def isExpired_def mining_chain_def)
  have 1: "sendTransaction mining_chain 5000 spent_stale_wallet sample_input
       = (Inl AlreadyUsedError, spent_stale_wallet)"
    using sendTransaction_used_before_expiry [of spent_stale_wallet mining_chain 5000 sample_input] u
    by simp
  have 2: "sendTransaction mining_chain 9000 (markAsUsed ?w) sample_input
       = (Inl AlreadyUsedError, markAsUsed ?w)"
    using sendTransaction_used_before_expiry
      [of ?w mining_chain 1500 sample_input mining_chain 9000 sample_input] s
    by simp
  from u e 1 s 2 show ?thesis by simp
qed

text \<open>
  C4. \<open>sendTransaction\<close> touches the wallet only on the path through the network call:
  when it fails with \<open>AlreadyUsedError\<close> or \<open>ExpiredSessionError\<close> the wallet, and so its
  \<open>used\<close> flag, is what it was before the call; and whenever the wallet has changed, the
  network call was made, the transaction was mined and the call returned its hash.
\<close>

theorem sendTransaction_failed_check_keeps_wallet:
  "(fst (sendTransaction net now w input) = Inl AlreadyUsedError
      \<or> fst (sendTransaction net now w input) = Inl ExpiredSessionError
    \<longrightarrow> snd (sendTransaction net now w input) = w
        \<and> used (meta (snd (sendTransaction net now w input))) = used (meta w))
   \<and> (snd (sendTransaction net now w input) \<noteq> w
    \<longrightarrow> (\<exists>h. sendTransaction net now w input = (Inr h, markAsUsed w)))"
proof (intro conjI impI)
  assume "fst (sendTransaction net now w input) = Inl AlreadyUsedError
      \<or> fst (sendTransaction net now w input) = Inl ExpiredSessionError"
  then have "snd (sendTransaction net now w input) = w"
    by (auto simp: sendTransaction_def Let_def split: if_splits send_outcome.splits)
  then show "snd (sendTransaction net now w input) = w"
    and "used (meta (snd (sendTransaction net now w input))) = used (meta w)"
    by simp_all
next
  assume "snd (sendTransaction net now w input) \<noteq> w"
  then show "\<exists>h. sendTransaction net now w input = (Inr h, markAsUsed w)"
    by (rule sendTransaction_changes_only_on_success)
qed

text \<open>
  An unused wallet past its expiry keeps \<open>used = False\<close> through the failed send, a used
  one stays as it is, and the same unused wallet before its expiry is changed by a send
  that is mined.
\<close>

theorem sendTransaction_failed_check_keeps_wallet_witness:
  "sendTransaction mining_chain 5000 stale_wallet sample_input
     = (Inl ExpiredSessionError, stale_wallet)
   \<and> used (meta (snd (sendTransaction mining_chain 5000 stale_wallet sample_input))) = False
   \<and> sendTransaction mining_chain 5000 spent_stale_wallet sample_input
     = (Inl AlreadyUsedError, spent_stale_wallet)
   \<and> snd (sendTransaction mining_chain 1500 stale_wallet sample_input) \<noteq> stale_wallet
   \<and> sendTransaction mining_chain 1500 stale_wallet sample_input
     = (Inr ''0xaa'', markAsUsed stale_wallet)"
proof -
  have a: "fst (sendTransaction mining_chain 5000 stale_wallet sample_input)
             = Inl ExpiredSessionError"
    by (simp add: sendTransaction_def stale_wallet_def isExpired_def)
  have b: "fst (sendTransaction mining_chain 5000 spent_stale_wallet sample_input)
             = Inl AlreadyUsedError"
    by (simp add: sendTransaction_def spent_stale_wallet_def)
  have c: "sendTransaction mining_chain 1500 stale_wallet sample_input
             = (Inr ''0xaa'', markAsUsed stale_wallet)"
    by (simp add: sendTransaction_def stale_wallet_def isExpired_def mining_chain_def)
  have d: "markAsUsed stale_wallet \<noteq> stale_wallet"
    by (simp add: markAsUsed_def stale_wallet_def)
  have u: "used (meta stale_wallet) = False" by (simp add: stale_wallet_def)
  from a sendTransaction_failed_check_keeps_wallet [of mining_chain 5000 stale_wallet sample_input]
  have 1: "snd (sendTransaction mining_chain 5000 stale_wallet sample_input) = stale_wallet"
    by simp
  from b sendTransaction_failed_check_keeps_wallet
    [of mining_chain 5000 spent_stale_wallet sample_input]
  have 2: "snd (sendTransaction mining_chain 5000 spent_stale_wallet sample_input)
             = spent_stale_wallet"
    by simp
  from a 1 have 3: "sendTransaction mining_chain 5000 stale_wallet sample_input
     = (Inl ExpiredSessionError, stale_wallet)" by (simp add: prod_eq_iff)
  from b 2 have 4: "sendTransaction mining_chain 5000 spent_stale_wallet sample_input
     = (Inl AlreadyUsedError, spent_stale_wallet)" by (simp add: prod_eq_iff)
  from 1 u 3 4 c d show ?thesis by simp
qed

section \<open>The used flag over the life of a wallet\<close>

lemma apply_op_keeps_used: "used (meta w) \<Longrightarrow> used (meta (apply_op w c))"
  by (cases c) (simp_all add: used_markAsUsed sendTransaction_keeps_used)

lemma run_ops_keeps_used: "used (meta w) \<Longrightarrow> used (meta (run_ops w cs))"
proof (induction cs arbitrary: w)
  case Nil
  then show ?case by simp
next
  case (Cons c cs)
  from Cons.prems have "used (meta (apply_op w c))" by (rule apply_op_keeps_used)
  then have "used (meta (run_ops (apply_op w c) cs))" by (rule Cons.IH)
  then show ?case by simp
qed

text \<open>
  C5. The \<open>used\<close> flag is false in the wallet that \<open>createTempWallet\<close> returns and is
  irreversible: once it is true it is still true after any call of the interface
  (\<open>address\<close>, \<open>isExpired\<close>, \<open>markAsUsed\<close>, \<open>sendTransaction\<close>) and after any sequence of
  such calls, and no \<open>sendTransaction\<close> on such a wallet succeeds.
\<close>

theorem used_is_irreversible:
  "used (meta (createTempWallet fresh now opts)) = False
   \<and> (used (meta w) \<longrightarrow> used (meta (apply_op w c)) \<and> used (meta (run_ops w cs)))
   \<and> (used (meta w) \<longrightarrow> (\<forall>h w'. sendTransaction net t w input \<noteq> (Inr h, w')))"
proof (intro conjI impI allI)
  show "used (meta (createTempWallet fresh now opts)) = False"
    by (simp add: createTempWallet_def)
next
  assume "used (meta w)"
  then show "used (meta (apply_op w c))" by (rule apply_op_keeps_used)
next
  assume "used (meta w)"
  then show "used (meta (run_ops w cs))" by (rule run_ops_keeps_used)
next
  fix h w'
  assume "used (meta w)"
  then have "sendTransaction net t w input = (Inl AlreadyUsedError, w)"
    by (rule sendTransaction_used)
  then show "sendTransaction net t w input \<noteq> (Inr h, w')" by simp
qed

text \<open>
  A wallet marked used stays used through a send, through a whole session of calls, and
  its send on a network that would mine the transaction does not return the hash.
\<close>

theorem used_is_irreversible_witness:
  "used (meta (createTempWallet sample_key 1000 \<lparr>ttl = Some 1, label = None\<rparr>)) = False
   \<and> used (meta (markAsUsed stale_wallet))
   \<and> used (meta (apply_op (markAsUsed stale_wallet) (OpSendTransaction mining_chain 1500 sample_input)))
   \<and> used (meta (run_ops (markAsUsed stale_wallet) sample_session))
   \<and> sendTransaction mining_chain 1500 (markAsUsed stale_wallet) sample_input
       \<noteq> (Inr ''0xaa'', markAsUsed stale_wallet)"
proof -
  have u: "used (meta (markAsUsed stale_wallet))" by (rule used_markAsUsed)
  from u used_is_irreversible
    [of sample_key 1000 "\<lparr>ttl = Some 1, label = None\<rparr>" "markAsUsed stale_wallet"
        "OpSendTransaction mining_chain 1500 sample_input" sample_session
        mining_chain 1500 sample_input]
  show ?thesis by simp
qed

section \<open>Creation (src/wallet.ts, createTempWallet)\<close>

lemma createTempWallet_meta:
  "createdAt (meta (createTempWallet fresh now opts)) = now"
  "used (meta (createTempWallet fresh now opts)) = False"
  "meta_label (meta (createTempWallet fresh now opts)) = label opts"
  "wallet (createTempWallet fresh now opts) = fresh"
  by (simp_all add: createTempWallet_def)

lemma createTempWallet_expiresAt:
  "expiresAt (meta (createTempWallet fresh now opts)) =
     (case ttl opts of None \<Rightarrow> None
      | Some t \<Rightarrow> if t = 0 then None else Some (createdAt (meta (createTempWallet fresh now opts)) + t * 1000))"
  by (simp add: createTempWallet_def split: option.splits)

text \<open>
  C7. The claim asks for \<open>expiresAt = createdAt + ttl\<close> whenever a ttl is given, \<open>ttl = 0\<close>
  included. The code tests the truthiness of \<open>opts.ttl\<close>, so at \<open>ttl = 0\<close> it leaves
  \<open>expiresAt\<close> unset instead of setting it to the creation time, and the wallet never
  expires. For every other ttl of the model \<open>createTempWallet_expiresAt\<close> gives what the
  claim says.
\<close>

theorem createTempWallet_ttl_zero_never_expires:
  "expiresAt (meta (createTempWallet fresh now \<lparr>ttl = Some 0, label = l\<rparr>)) = None
   \<and> expiresAt (meta (createTempWallet fresh now \<lparr>ttl = Some 0, label = l\<rparr>))
       \<noteq> Some (now + 0 * 1000)
   \<and> isExpired t (createTempWallet fresh now \<lparr>ttl = Some 0, label = l\<rparr>) = False"
  by (simp add: createTempWallet_def isExpired_def)

section \<open>The sweep builder (src/sweep.ts, buildSweepTx)\<close>

text \<open>
  What \<open>buildSweepTx\<close> returns for a balance \<open>B\<close> that the node answered, for every
  integer \<open>B\<close> and every buffer.
\<close>

lemma buildSweepTx_cases:
  assumes "getBalanceWei rpc (sw_providerUrl input) (sw_fromAddress input) = Inr B"
  shows "buildSweepTx rpc input =
     (if B = 0 then Inl NoBalanceToSweepError
      else if B \<le> (case gasLimitBuffer input of None \<Rightarrow> 0 | Some g \<Rightarrow> g)
        then Inl InsufficientAfterBufferError
      else Inr \<lparr> req_to = Some (sw_to input),
                 req_value = Some (B - (case gasLimitBuffer input of None \<Rightarrow> 0 | Some g \<Rightarrow> g)),
                 req_data = None, req_gasLimit = None, req_gasPrice = None,
                 req_maxFeePerGas = None, req_maxPriorityFeePerGas = None,
                 req_nonce = None \<rparr>)"
  using assms by (simp add: buildSweepTx_def Let_def)

lemma buildSweepTx_transport:
  assumes "getBalanceWei rpc (sw_providerUrl input) (sw_fromAddress input) = Inl m"
  shows "buildSweepTx rpc input = Inl (TransportError m)"
  using assms by (simp add: buildSweepTx_def)

lemma sample_sweep_balance:
  "getBalanceWei (node_with_balance B) (sw_providerUrl (sample_sweep buf))
     (sw_fromAddress (sample_sweep buf)) = Inr B"
  by (simp add: getBalanceWei_def node_with_balance_def)

lemma sample_sweep_fields:
  "gasLimitBuffer (sample_sweep buf) = buf"
  "sw_to (sample_sweep buf) = ''0x000000000000000000000000000000000000dEaD''"
  by (simp_all add: sample_sweep_def)

text \<open>
  The statement of C1 for every queried balance fails at a negative one, which the
  \<open>bigint\<close> that the balance query returns can be. With balance \<open>-1\<close> and no buffer the
  call fails with \<open>InsufficientAfterBufferError\<close> although \<open>0 < B\<close> does not hold, and with
  balance \<open>-1\<close> and buffer \<open>-5\<close> it returns a descriptor of value \<open>4\<close> although
  \<open>B > 0\<close> does not hold.
\<close>

theorem buildSweepTx_negative_balance:
  "buildSweepTx (node_with_balance (- 1)) (sample_sweep None) = Inl InsufficientAfterBufferError
   \<and> \<not> (0 < (- 1 :: int) \<and> (- 1 :: int) \<le> 0)
   \<and> buildSweepTx (node_with_balance (- 1)) (sample_sweep (Some (- 5))) =
       Inr \<lparr> req_to = Some ''0x000000000000000000000000000000000000dEaD'',
             req_value = Some 4,
             req_data = None, req_gasLimit = None, req_gasPrice = None,
             req_maxFeePerGas = None, req_maxPriorityFeePerGas = None, req_nonce = None \<rparr>
   \<and> \<not> 0 < (- 1 :: int)"
  by (simp add: buildSweepTx_cases [OF sample_sweep_balance] sample_sweep_fields)

text \<open>
  C1, amended. Let the node answer the balance query with \<open>B\<close> and let \<open>b\<close> be the gas
  buffer (\<open>0\<close> when \<open>gasLimitBuffer\<close> is omitted). Then \<open>buildSweepTx\<close> fails with
  \<open>NoBalanceToSweepError\<close> if and only if \<open>B = 0\<close>; fails with
  \<open>InsufficientAfterBufferError\<close> if and only if \<open>B\<close> is not \<open>0\<close> and \<open>B \<le> b\<close>; returns a
  descriptor only when \<open>B\<close> is not \<open>0\<close> and the value \<open>B - b\<close> it carries is positive;
  and raises no other error. For a balance that is not negative these are the conditions
  \<open>0 < B \<le> b\<close> and \<open>B > 0\<close>.
\<close>

theorem buildSweepTx_outcomes:
  assumes "getBalanceWei rpc (sw_providerUrl input) (sw_fromAddress input) = Inr B"
    and "b = (case gasLimitBuffer input of None \<Rightarrow> 0 | Some g \<Rightarrow> g)"
  shows "(buildSweepTx rpc input = Inl NoBalanceToSweepError \<longleftrightarrow> B = 0)
    \<and> (buildSweepTx rpc input = Inl InsufficientAfterBufferError \<longleftrightarrow> B \<noteq> 0 \<and> B \<le> b)
    \<and> (\<forall>tx. buildSweepTx rpc input = Inr tx \<longrightarrow>
          B \<noteq> 0 \<and> 0 < B - b \<and> req_value tx = Some (B - b))
    \<and> (\<forall>e. buildSweepTx rpc input = Inl e \<longrightarrow>
          e = NoBalanceToSweepError \<or> e = InsufficientAfterBufferError)
    \<and> (0 \<le> B \<longrightarrow>
          (buildSweepTx rpc input = Inl InsufficientAfterBufferError \<longleftrightarrow> 0 < B \<and> B \<le> b)
          \<and> (\<forall>tx. buildSweepTx rpc input = Inr tx \<longrightarrow> 0 < B \<and> 0 < B - b))"
proof -
  note c = buildSweepTx_cases [OF assms(1), folded assms(2)]
  have 1: "buildSweepTx rpc input = Inl NoBalanceToSweepError \<longleftrightarrow> B = 0"
    using c by simp
  have 2: "buildSweepTx rpc input = Inl InsufficientAfterBufferError \<longleftrightarrow> B \<noteq> 0 \<and> B \<le> b"
    using c by auto
  have 3: "\<forall>tx. buildSweepTx rpc input = Inr tx \<longrightarrow>
          B \<noteq> 0 \<and> 0 < B - b \<and> req_value tx = Some (B - b)"
    using c by (auto split: if_splits)
  have 4: "\<forall>e. buildSweepTx rpc input = Inl e \<longrightarrow>
          e = NoBalanceToSweepError \<or> e = InsufficientAfterBufferError"
    using c by (auto split: if_splits)
  have 5: "0 \<le> B \<longrightarrow>
          (buildSweepTx rpc input = Inl InsufficientAfterBufferError \<longleftrightarrow> 0 < B \<and> B \<le> b)
          \<and> (\<forall>tx. buildSweepTx rpc input = Inr tx \<longrightarrow> 0 < B \<and> 0 < B - b)"
    using 2 3 by auto
  from 1 2 3 4 5 show ?thesis by blast
qed

text \<open>
  Balances 0, 1000, 7 and 10000000000000000 against no buffer and a buffer of 1000, and
  the balance \<open>-1\<close> against no buffer.
\<close>

theorem buildSweepTx_outcomes_witness:
  "buildSweepTx (node_with_balance 0) (sample_sweep None) = Inl NoBalanceToSweepError
   \<and> buildSweepTx (node_with_balance 0) (sample_sweep (Some 1000)) = Inl NoBalanceToSweepError
   \<and> buildSweepTx (node_with_balance 1000) (sample_sweep (Some 1000))
       = Inl InsufficientAfterBufferError
   \<and> buildSweepTx (node_with_balance 7) (sample_sweep (Some 1000))
       = Inl InsufficientAfterBufferError
   \<and> buildSweepTx (node_with_balance (- 1)) (sample_sweep None)
       = Inl InsufficientAfterBufferError
   \<and> buildSweepTx (node_with_balance 7) (sample_sweep None) \<noteq> Inl InsufficientAfterBufferError
   \<and> buildSweepTx (node_with_balance 7) (sample_sweep None) \<noteq> Inl NoBalanceToSweepError
   \<and> (\<exists>tx. buildSweepTx (node_with_balance 7) (sample_sweep None) = Inr tx
          \<and> req_value tx = Some 7)
   \<and> buildSweepTx (node_with_balance 10000000000000000) (sample_sweep (Some 1000))
       \<noteq> Inl InsufficientAfterBufferError"
proof -
  note g = sample_sweep_balance
  have r: "\<exists>tx. buildSweepTx (node_with_balance 7) (sample_sweep None) = Inr tx
             \<and> req_value tx = Some 7"
    by (simp add: buildSweepTx_cases [OF g] sample_sweep_fields)
  show ?thesis
    using buildSweepTx_outcomes [OF g, of 0 None 0]
      buildSweepTx_outcomes [OF g, of 1000 "Some 1000" 0]
      buildSweepTx_outcomes [OF g, of 1000 "Some 1000" 1000]
      buildSweepTx_outcomes [OF g, of 1000 "Some 1000" 7]
      buildSweepTx_outcomes [OF g, of 0 None "- 1"]
      buildSweepTx_outcomes [OF g, of 0 None 7]
      buildSweepTx_outcomes [OF g, of 1000 "Some 1000" 10000000000000000]
      r
    by (simp add: sample_sweep_fields)
qed

text \<open>
  The statement of C2 for every buffer \<open>b < B\<close> fails at an empty account and a negative
  buffer: with balance \<open>0\<close> and \<open>gasLimitBuffer = -1\<close> the balance exceeds the buffer, yet
  the zero-balance check comes first and the call fails with \<open>NoBalanceToSweepError\<close>.
\<close>

theorem buildSweepTx_zero_balance_negative_buffer:
  "(0::int) > - 1
   \<and> getBalanceWei (node_with_balance 0) (sw_providerUrl (sample_sweep (Some (- 1))))
        (sw_fromAddress (sample_sweep (Some (- 1)))) = Inr 0
   \<and> gasLimitBuffer (sample_sweep (Some (- 1))) = Some (- 1)
   \<and> buildSweepTx (node_with_balance 0) (sample_sweep (Some (- 1))) = Inl NoBalanceToSweepError"
  by (simp add: buildSweepTx_def getBalanceWei_def node_with_balance_def sample_sweep_def)

text \<open>
  C2, amended. For every queried balance \<open>B\<close> other than \<open>0\<close> and every buffer \<open>b\<close> with
  \<open>B > b\<close>, \<open>buildSweepTx\<close> returns the descriptor whose \<open>to\<close> is the requested
  destination and whose \<open>value\<close> is \<open>B - b\<close>, with no data, gas limit, gas price, fee or
  nonce field populated.
\<close>

theorem buildSweepTx_value:
  assumes "getBalanceWei rpc (sw_providerUrl input) (sw_fromAddress input) = Inr B"
    and "b = (case gasLimitBuffer input of None \<Rightarrow> 0 | Some g \<Rightarrow> g)"
    and "B \<noteq> 0" and "B > b"
  shows "buildSweepTx rpc input =
           Inr \<lparr> req_to = Some (sw_to input), req_value = Some (B - b),
                 req_data = None, req_gasLimit = None, req_gasPrice = None,
                 req_maxFeePerGas = None, req_maxPriorityFeePerGas = None,
                 req_nonce = None \<rparr>"
  using buildSweepTx_cases [OF assms(1)] assms(2-4) by simp

text \<open>
  The balance and buffer of the repository's test (\<open>10000000000000000\<close> and \<open>1000\<close>), and
  a balance of 5 with the buffer omitted.
\<close>

theorem buildSweepTx_value_witness:
  "buildSweepTx (node_with_balance 10000000000000000) (sample_sweep (Some 1000)) =
     Inr \<lparr> req_to = Some ''0x000000000000000000000000000000000000dEaD'',
           req_value = Some 9999999999999000,
           req_data = None, req_gasLimit = None, req_gasPrice = None,
           req_maxFeePerGas = None, req_maxPriorityFeePerGas = None, req_nonce = None \<rparr>
   \<and> buildSweepTx (node_with_balance 5) (sample_sweep None) =
     Inr \<lparr> req_to = Some ''0x000000000000000000000000000000000000dEaD'',
           req_value = Some 5,
           req_data = None, req_gasLimit = None, req_gasPrice = None,
           req_maxFeePerGas = None, req_maxPriorityFeePerGas = None, req_nonce = None \<rparr>"
  using buildSweepTx_value [OF sample_sweep_balance, of 1000 "Some 1000" 10000000000000000]
    buildSweepTx_value [OF sample_sweep_balance, of 0 None 5]
  by (simp add: sample_sweep_fields)

section \<open>Double rounding\<close>

lemma pow2_powi: "pow2 i = 2 powi i"
  by (simp add: pow2_def power_int_def field_simps)

lemma pow2_pos: "0 < pow2 i"
  by (simp add: pow2_powi)

lemma pow2_add: "pow2 (i + j) = pow2 i * pow2 j"
  by (simp add: pow2_powi power_int_add)

lemma pow2_nat: "pow2 (int n) = 2 ^ n"
  by (simp add: pow2_def)

lemma pow2_mono: "i \<le> j \<Longrightarrow> pow2 i \<le> pow2 j"
  by (simp add: pow2_powi power_int_increasing)

lemma pow2_strict_mono: "i < j \<Longrightarrow> pow2 i < pow2 j"
  by (simp add: pow2_powi power_int_strict_increasing)

lemma floor_log2_bounds:
  assumes "1 \<le> x"
  shows "0 \<le> floor_log2 x" and "pow2 (floor_log2 x) \<le> x" and "x < pow2 (floor_log2 x + 1)"
proof -
  let ?n = "nat \<lfloor>x\<rfloor>"
  let ?l = "floorlog 2 ?n"
  have n: "0 < ?n" using assms by simp
  have b: "2 ^ (?l - 1) \<le> ?n" "?n < 2 ^ ?l"
    using floorlog_bounds [of ?n 2] n by simp_all
  have l: "0 < ?l" using n by (simp add: floorlog_eq_zero_iff zero_less_iff_neq_zero)
  have e: "floor_log2 x = int (?l - 1)" using assms l by (simp add: floor_log2_def)
  show "0 \<le> floor_log2 x" using e by simp
  have "(2::int) ^ (?l - 1) \<le> \<lfloor>x\<rfloor>"
    using b(1) assms by (metis n of_nat_le_iff of_nat_numeral of_nat_power nat_0_le of_nat_0_less_iff zero_less_nat_eq less_imp_le int_nat_eq)
  then have "of_int ((2::int) ^ (?l - 1)) \<le> x" by (simp add: le_floor_iff)
  then show "pow2 (floor_log2 x) \<le> x" by (simp add: e pow2_nat)
  have "\<lfloor>x\<rfloor> < (2::int) ^ ?l"
    using b(2) by (metis nat_less_iff of_nat_numeral of_nat_power of_nat_less_iff zless_nat_conj nat_int)
  then have "x < of_int ((2::int) ^ ?l)" by (simp add: floor_less_iff)
  moreover have "floor_log2 x + 1 = int ?l" using e l by simp
  ultimately show "x < pow2 (floor_log2 x + 1)" by (simp add: pow2_nat)
qed

text \<open>\<open>floor_log2\<close> is the binary exponent of every positive value.\<close>

lemma floor_log2_bounds_small:
  assumes "0 < x" and "x < 1"
  shows "pow2 (floor_log2 x) \<le> x" and "x < pow2 (floor_log2 x + 1)"
proof -
  let ?N = "\<lceil>1 / x\<rceil>"
  let ?n = "nat (?N - 1)"
  let ?j = "floorlog 2 ?n"
  have inv: "1 < 1 / x" using assms by simp
  then have "(1::int) < ?N" by (simp only: less_ceiling_iff of_int_1)
  then have N2: "2 \<le> ?N" by linarith
  then have N0: "0 \<le> ?N - 1" and N1: "0 < ?N - 1" by linarith+
  from N1 have n: "0 < ?n" by (simp only: zero_less_nat_eq)
  from N0 have nn: "int ?n = ?N - 1" by (rule nat_0_le)
  have b: "2 ^ (?j - 1) \<le> ?n" "?n < 2 ^ ?j"
    using floorlog_bounds [of ?n 2] n by simp_all
  have j: "0 < ?j" using n by (simp add: floorlog_eq_zero_iff zero_less_iff_neq_zero)
  have e: "floor_log2 x = - int ?j" using assms by (simp add: floor_log2_def)
  have "int ?n < 2 ^ ?j" using b(2) by (metis of_nat_less_iff of_nat_numeral of_nat_power)
  then have "?N - 1 < 2 ^ ?j" by (simp only: nn)
  then have "?N \<le> 2 ^ ?j" by linarith
  then have "1 / x \<le> of_int (2 ^ ?j)" by (simp only: ceiling_le_iff)
  then have "1 / x \<le> 2 ^ ?j" by simp
  then have "1 \<le> 2 ^ ?j * x" using assms(1) by (simp add: pos_divide_le_eq)
  then have "1 / 2 ^ ?j \<le> x" by (simp add: pos_divide_le_eq mult.commute)
  moreover have "pow2 (- int ?j) = 1 / 2 ^ ?j" using j by (simp add: pow2_def)
  ultimately show "pow2 (floor_log2 x) \<le> x" by (simp only: e)
  have "2 ^ (?j - 1) \<le> int ?n" using b(1) by (metis of_nat_le_iff of_nat_numeral of_nat_power)
  then have "2 ^ (?j - 1) \<le> ?N - 1" by (simp only: nn)
  then have "(of_int (2 ^ (?j - 1)) :: rat) \<le> of_int (?N - 1)" by (simp only: of_int_le_iff)
  moreover have "of_int (?N - 1) < 1 / x" using ceiling_correct [of "1 / x"] by simp
  ultimately have "(2::rat) ^ (?j - 1) < 1 / x" by simp
  then have "2 ^ (?j - 1) * x < 1" using assms(1) by (simp add: pos_less_divide_eq)
  then have "x < 1 / 2 ^ (?j - 1)" by (simp add: pos_less_divide_eq mult.commute)
  moreover have "pow2 (- int ?j + 1) = 1 / 2 ^ (?j - 1)"
  proof (cases "?j = 1")
    case True
    then show ?thesis by (simp add: pow2_def)
  next
    case False
    with j have "2 \<le> ?j" by simp
    then have "nat (int ?j - 1) = ?j - 1" and "\<not> 0 \<le> - int ?j + 1" by simp_all
    then show ?thesis by (simp add: pow2_def)
  qed
  ultimately show "x < pow2 (floor_log2 x + 1)" by (simp only: e)
qed

lemma floor_log2_exponent:
  assumes "0 < x"
  shows "pow2 (floor_log2 x) \<le> x \<and> x < pow2 (floor_log2 x + 1)"
proof (cases "1 \<le> x")
  case True
  then show ?thesis by (simp add: floor_log2_bounds)
next
  case False
  then have "x < 1" by simp
  with assms show ?thesis by (simp add: floor_log2_bounds_small)
qed

lemma round_half_even_of_int: "round_half_even (of_int n) = n"
  by (simp add: round_half_even_def)



lemma round_double_exact:
  assumes "0 \<le> k" and "k \<le> 2 ^ 53"
  shows "round_double (of_int k) = Finite (of_int k)"
proof (cases "k = 0")
  case True
  then show ?thesis by (simp add: round_double_def)
next
  case False
  let ?x = "of_int k :: rat"
  let ?e = "floor_log2 ?x"
  from False assms have k: "1 \<le> k" by simp
  then have x1: "1 \<le> ?x" by simp
  note fb = floor_log2_bounds [OF x1]
  have "?x \<le> of_int (2 ^ 53)" using assms(2) by (simp only: of_int_le_iff)
  then have x53: "?x \<le> pow2 53" by (simp add: pow2_def)
  have e53: "?e \<le> 53"
  proof (rule ccontr)
    assume "\<not> ?e \<le> 53"
    then have "53 + 1 \<le> ?e" by simp
    then have "pow2 (53 + 1) \<le> pow2 ?e" by (rule pow2_mono)
    then have "pow2 (53 + 1) \<le> ?x" using fb(2) by (rule order_trans)
    then have "pow2 (53 + 1) \<le> pow2 53" using x53 by (rule order_trans)
    moreover have "pow2 53 < pow2 (53 + 1)" by (rule pow2_strict_mono) simp
    ultimately show False by simp
  qed
  have ax: "\<bar>?x\<bar> = ?x" using x1 by simp
  have m: "max ?e (- 1022) = ?e" using fb(1) by simp
  have int_quot: "\<exists>n::int. ?x / pow2 (?e - 52) = of_int n"
  proof (cases "?e \<le> 52")
    case True
    then have "pow2 (?e - 52) = 1 / 2 ^ nat (52 - ?e)" by (simp add: pow2_def)
    then have "?x / pow2 (?e - 52) = of_int (k * 2 ^ nat (52 - ?e))" by simp
    then show ?thesis by blast
  next
    case False
    with e53 have e: "?e = 53" by simp
    have "pow2 53 \<le> ?x" using fb(2) by (simp only: e)
    with x53 have "?x = pow2 53" by (rule order_antisym)
    moreover have "pow2 (?e - 52) = pow2 1" by (simp only: e) simp
    moreover have "pow2 53 = pow2 52 * pow2 1" by (simp flip: pow2_add)
    moreover have "pow2 52 = of_int (2 ^ 52)" by (simp add: pow2_def)
    ultimately have "?x / pow2 (?e - 52) = of_int (2 ^ 52)"
      using pow2_pos [of 1] by simp
    then show ?thesis by blast
  qed
  then obtain n :: int where n: "?x / pow2 (?e - 52) = of_int n" by blast
  have "of_int (round_half_even (?x / pow2 (?e - 52))) = ?x / pow2 (?e - 52)"
    by (simp only: n round_half_even_of_int)
  then have r: "of_int (round_half_even (?x / pow2 (?e - 52))) * pow2 (?e - 52) = ?x"
    using pow2_pos [of "?e - 52"] by simp
  have small: "\<not> (2::rat) ^ 1024 \<le> ?x"
  proof -
    have "pow2 53 < pow2 1024" by (rule pow2_strict_mono) simp
    with x53 have "?x < pow2 1024" by (rule le_less_trans)
    then have "?x < 2 ^ 1024" by (simp only: pow2_def) simp
    then show ?thesis by (simp only: not_le)
  qed
  have x0: "?x \<noteq> 0" and sg: "sgn ?x = 1" using x1 by simp_all
  show ?thesis
    by (simp only: round_double_def x0 if_False ax m Let_def r small sg mult_1)
qed


text \<open>
  The rounding of a value of at least 1 from its exponent, and two values computed with
  it: \<open>10000.5\<close> is a double, and \<open>10000 + (2^53 - 1)\<close> is a tie that goes to the even
  neighbour above.
\<close>

lemma floor_log2_eqI:
  assumes "1 \<le> x" and "pow2 e \<le> x" and "x < pow2 (e + 1)"
  shows "floor_log2 x = e"
proof (rule ccontr)
  assume ne: "floor_log2 x \<noteq> e"
  note fb = floor_log2_bounds [OF assms(1)]
  show False
  proof (cases "floor_log2 x < e")
    case True
    then have "pow2 (floor_log2 x + 1) \<le> pow2 e" by (intro pow2_mono) simp
    with fb(3) assms(2) show False by simp
  next
    case False
    with ne have "e + 1 \<le> floor_log2 x" by simp
    then have "pow2 (e + 1) \<le> pow2 (floor_log2 x)" by (rule pow2_mono)
    with fb(2) assms(3) show False by simp
  qed
qed

lemma round_double_normal:
  assumes "1 \<le> x" and "pow2 e \<le> x" and "x < pow2 (e + 1)"
    and "round_half_even (x / pow2 (e - 52)) = n"
    and "of_int n * pow2 (e - 52) < 2 ^ 1024"
  shows "round_double x = Finite (of_int n * pow2 (e - 52))"
proof -
  have e: "floor_log2 x = e" using assms(1-3) by (rule floor_log2_eqI)
  have e0: "0 \<le> e" using floor_log2_bounds(1) [OF assms(1)] e by simp
  have m: "max e (- 1022) = e" using e0 by simp
  have ax: "\<bar>x\<bar> = x" and x0: "x \<noteq> 0" and sg: "sgn x = 1" using assms(1) by simp_all
  have no: "\<not> 2 ^ 1024 \<le> of_int n * pow2 (e - 52)" using assms(5) by simp
  show ?thesis
    by (simp only: round_double_def x0 if_False ax e m Let_def assms(4) no sg mult_1)
qed


lemma round_half_even_tie_odd:
  assumes "odd f" shows "round_half_even (of_int f + 1 / 2) = f + 1"
proof -
  have "\<lfloor>(of_int f + 1 / 2 :: rat)\<rfloor> = f" by (simp add: floor_unique)
  then show ?thesis using assms by (simp add: round_half_even_def)
qed

lemma round_double_beyond_2_53: "round_double (10000 + 9007199254740991) = Finite 9007199254750992"
proof -
  have x: "(10000 + 9007199254740991 :: rat) = 9007199254750991" by simp
  have q: "(9007199254750991 :: rat) / pow2 (53 - 52) = of_int 4503599627375495 + 1 / 2"
    by (simp add: pow2_def)
  have "round_half_even (9007199254750991 / pow2 (53 - 52)) = 4503599627375495 + 1"
    by (simp only: q) (rule round_half_even_tie_odd, simp)
  then have "round_half_even (9007199254750991 / pow2 (53 - 52)) = 4503599627375496" by simp
  then have "round_double 9007199254750991 = Finite (of_int 4503599627375496 * pow2 (53 - 52))"
    by (intro round_double_normal) (simp_all add: pow2_def)
  then show ?thesis by (simp add: x pow2_def)
qed

section \<open>The gas estimator (src/estimate.ts)\<close>



lemma js_add_10000_exact:
  assumes "0 \<le> m" and "m \<le> 2 ^ 53 - 10000"
  shows "js_add (Finite 10000) (Finite (of_int m)) = Finite (of_int (10000 + m))"
proof -
  have "round_double (of_int (10000 + m)) = Finite (of_int (10000 + m))"
    using assms by (intro round_double_exact) simp_all
  then show ?thesis by simp
qed

lemma BigInt_of_int: "BigInt (Finite (of_int k)) = Inr k"
  by simp


lemma estimateWithMarginWei_integral:
  assumes "0 \<le> m" and "m \<le> 2 ^ 53 - 10000"
  shows "estimateWithMarginWei input (Finite (of_int m))
           = Inr (estimateTotalCostWei input * (10000 + m) sdiv 10000)"
  by (simp only: estimateWithMarginWei_def js_add_10000_exact [OF assms] BigInt_of_int Let_def
      sum.case)




lemma estimateTotalCostWei_exact:
  "estimateTotalCostWei \<lparr>gasUnits = u, gasPriceWei = p\<rparr> = u * p"
  by (simp add: estimateTotalCostWei_def)

lemma js_add_beyond_2_53:
  "js_add (Finite 10000) (Finite 9007199254740991) = Finite 9007199254750992"
  using round_double_beyond_2_53 by simp

text \<open>
  Outside the bounds of C6 the inequality can fail: a negative total with one basis
  point of margin gives a smaller result.
\<close>

lemma estimateWithMarginWei_negative_total:
  "estimateTotalCostWei \<lparr>gasUnits = - 1, gasPriceWei = 10000\<rparr> = - 10000
   \<and> estimateWithMarginWei \<lparr>gasUnits = - 1, gasPriceWei = 10000\<rparr> (Finite 1) = Inr (- 10001)"
  using estimateWithMarginWei_integral [of 1 "\<lparr>gasUnits = - 1, gasPriceWei = 10000\<rparr>"]
  by (simp add: estimateTotalCostWei_def signed_divide_int_def)




section \<open>The payment URI (src/utils.ts, buildPaymentURI)\<close>

lemma nat_toString_digit: "n < 10 \<Longrightarrow> nat_toString n = [digit_char n]"
  by (simp add: nat_toString.simps)

lemma nat_toString_step:
  "10 \<le> n \<Longrightarrow> nat_toString n = nat_toString (n div 10) @ [digit_char (n mod 10)]"
  by (subst nat_toString.simps) simp

lemma bigint_toString_zero: "bigint_toString 0 = ''0''"
  by (simp add: bigint_toString_def nat_toString_digit digit_char_def)

lemma bigint_toString_examples:
  "bigint_toString 7 = ''7''"
  "bigint_toString 1000 = ''1000''"
  "bigint_toString (- 42) = ''-42''"
  by (simp_all add: bigint_toString_def nat_toString_digit nat_toString_step digit_char_def)

text \<open>\<open>nat_toString\<close> writes the decimal numeral of its argument.\<close>

lemma digit_val_digit_char: "d < 10 \<Longrightarrow> digit_val (digit_char d) = d"
proof -
  assume "d < 10"
  then have "d \<in> {0, 1, 2, 3, 4, 5, 6, 7, 8, 9}" by auto
  then show ?thesis
    by (auto simp: digit_val_def digit_char_def)
qed

lemma nat_of_decimal_snoc:
  "nat_of_decimal (s @ [c]) = 10 * nat_of_decimal s + digit_val c"
  by (simp add: nat_of_decimal_def)

lemma nat_of_decimal_nat_toString: "nat_of_decimal (nat_toString n) = n"
proof (induction n rule: nat_toString.induct)
  case (1 n)
  show ?case
  proof (cases "n < 10")
    case True
    then show ?thesis
      by (simp add: nat_toString_digit nat_of_decimal_def digit_val_digit_char)
  next
    case False
    then have "nat_toString n = nat_toString (n div 10) @ [digit_char (n mod 10)]"
      by (simp add: nat_toString_step)
    moreover have "nat_of_decimal (nat_toString (n div 10)) = n div 10"
      using False by (rule "1.IH")
    ultimately show ?thesis
      by (simp add: nat_of_decimal_snoc digit_val_digit_char)
  qed
qed

lemma buildPaymentURI_no_amount: "buildPaymentURI addr None = ''ethereum:'' @ addr"
  by (simp add: buildPaymentURI_def)

lemma buildPaymentURI_nonzero_amount:
  "w \<noteq> 0 \<Longrightarrow>
   buildPaymentURI addr (Some w) = ''ethereum:'' @ addr @ ''?value='' @ bigint_toString w"
  by (simp add: buildPaymentURI_def)

lemma buildPaymentURI_example:
  "buildPaymentURI ''0xdEaD'' (Some 1000) = ''ethereum:0xdEaD?value=1000''"
  by (simp add: buildPaymentURI_def bigint_toString_examples)

text \<open>
  C8. The claim asks for \<open>"ethereum:" + addr + "?value=" + decimal w\<close> for every amount
  supplied, \<open>0\<close> included. The code tests the truthiness of \<open>wei\<close>, so for the amount \<open>0\<close> it
  returns \<open>"ethereum:" + addr\<close> without the \<open>?value=0\<close> that the claim states. Without an
  amount and for every nonzero amount the result is the claim's
  (\<open>buildPaymentURI_no_amount\<close>, \<open>buildPaymentURI_nonzero_amount\<close>).
\<close>

theorem buildPaymentURI_zero_amount:
  "buildPaymentURI addr (Some 0) = ''ethereum:'' @ addr
   \<and> buildPaymentURI addr (Some 0) \<noteq> ''ethereum:'' @ addr @ ''?value='' @ bigint_toString 0"
  by (simp add: buildPaymentURI_def)

section \<open>The Safe sweep payload (src/safe.ts, buildSafeSweep)\<close>

lemma buildSafeSweep_errors:
  "buildSafeSweep rpc params = Inl e \<Longrightarrow>
   \<exists>m. e = TransportError m
      \<and> getBalanceWei rpc (ss_providerUrl params) (safeAddress params) = Inl m"
  by (auto simp: buildSafeSweep_def split: sum.splits)

text \<open>
  C9. For every balance \<open>B\<close> that the node answers for the Safe address, \<open>B = 0\<close> included,
  \<open>buildSafeSweep\<close> returns the payload with the requested destination, the full balance
  \<open>B\<close> as value and the data \<open>"0x"\<close>; it raises neither balance error. \<open>buildSweepTx\<close> on the
  same address differs: at \<open>B = 0\<close> it fails with \<open>NoBalanceToSweepError\<close>, whatever the
  buffer.
\<close>

theorem buildSafeSweep_full_balance:
  assumes "getBalanceWei rpc (ss_providerUrl params) (safeAddress params) = Inr B"
  shows "buildSafeSweep rpc params
           = Inr \<lparr> sp_to = ss_to params, sp_value = B, sp_data = ''0x'' \<rparr>
    \<and> buildSafeSweep rpc params \<noteq> Inl NoBalanceToSweepError
    \<and> buildSafeSweep rpc params \<noteq> Inl InsufficientAfterBufferError
    \<and> (B = 0 \<longrightarrow>
         buildSweepTx rpc \<lparr> sw_fromAddress = safeAddress params, sw_to = ss_to params,
                             sw_providerUrl = ss_providerUrl params, gasLimitBuffer = buf \<rparr>
           = Inl NoBalanceToSweepError)"
  using assms by (simp add: buildSafeSweep_def buildSweepTx_def)

text \<open>
  An empty Safe yields a payload of value 0 where the sweep builder fails, and a Safe
  holding 1000 wei yields a payload of value 1000.
\<close>

theorem buildSafeSweep_full_balance_witness:
  "buildSafeSweep (node_with_balance 0) sample_safe
     = Inr \<lparr> sp_to = ''0x000000000000000000000000000000000000dEaD'', sp_value = 0,
             sp_data = ''0x'' \<rparr>
   \<and> buildSweepTx (node_with_balance 0) (sample_sweep None) = Inl NoBalanceToSweepError
   \<and> buildSafeSweep (node_with_balance 1000) sample_safe
     = Inr \<lparr> sp_to = ''0x000000000000000000000000000000000000dEaD'', sp_value = 1000,
             sp_data = ''0x'' \<rparr>"
proof -
  have g: "\<And>B. getBalanceWei (node_with_balance B) (ss_providerUrl sample_safe)
             (safeAddress sample_safe) = Inr B"
    by (simp add: getBalanceWei_def node_with_balance_def)
  show ?thesis
    using buildSafeSweep_full_balance [OF g, of 0 None]
      buildSafeSweep_full_balance [OF g, of 1000 None]
    by (simp add: sample_safe_def sample_sweep_def)
qed

end
